theory Spec2Isabelle
  imports Main "HOL-Library.Char_ord" "HOL-Library.List_Lexorder"
begin

section \<open>Python values, errors and rendering\<close>

text \<open>
  The decorators of \<^verbatim>\<open>deco.py\<close> are polymorphic in the values they pass around. The
  model fixes a universe of Python values that is large enough for the program: \<^verbatim>\<open>None\<close>
  (the sentinel of \<^verbatim>\<open>n_ary\<close>), unbounded integers, tuples (hashable when their elements
  are) and lists (never hashable). Booleans, floats and strings as values are left out.
\<close>

datatype val = VNone | VInt int | VTuple "val list" | VList "val list"

text \<open>
  Exceptions are values. \<^verbatim>\<open>RecursionError\<close> is what Python raises when the call stack is
  exhausted; \<open>Failure\<close> stands for any exception a target raises itself.
\<close>

datatype exn = TypeError | AttributeError | RecursionError | Failure string

fun hashable :: "val \<Rightarrow> bool" and hashable_list :: "val list \<Rightarrow> bool" where
  "hashable VNone = True"
| "hashable (VInt i) = True"
| "hashable (VTuple xs) = hashable_list xs"
| "hashable (VList xs) = False"
| "hashable_list [] = True"
| "hashable_list (x # xs) = (hashable x \<and> hashable_list xs)"

text \<open>Decimal rendering of integers, as \<^verbatim>\<open>str\<close> and \<^verbatim>\<open>repr\<close> do.\<close>

function show_nat :: "nat \<Rightarrow> string" where
  "show_nat n =
     (if n < 10 then [''0123456789'' ! n]
      else show_nat (n div 10) @ [''0123456789'' ! (n mod 10)])"
  by pat_completeness auto
termination
  by (relation "measure (\<lambda>n. n)") auto

declare show_nat.simps [simp del]

definition show_int :: "int \<Rightarrow> string" where
  "show_int i = (if i < 0 then ''-'' @ show_nat (nat (- i)) else show_nat (nat i))"

fun comma_join :: "string list \<Rightarrow> string" where
  "comma_join [] = []"
| "comma_join [x] = x"
| "comma_join (x # y # zs) = x @ '', '' @ comma_join (y # zs)"

text \<open>
  \<^verbatim>\<open>repr\<close> of a value; for the values of this universe \<^verbatim>\<open>str\<close> gives the same text. A
  one-element tuple is written with a trailing comma: \<^verbatim>\<open>(3,)\<close>.
\<close>

fun py_repr :: "val \<Rightarrow> string" where
  "py_repr VNone = ''None''"
| "py_repr (VInt i) = show_int i"
| "py_repr (VTuple xs) =
     (if length xs = 1 then ''('' @ comma_join (map py_repr xs) @ '',)''
      else ''('' @ comma_join (map py_repr xs) @ '')'')"
| "py_repr (VList xs) = ''['' @ comma_join (map py_repr xs) @ '']''"

text \<open>\<^verbatim>\<open>a + b\<close> and \<^verbatim>\<open>a * b\<close> on these values.\<close>

fun py_add :: "val \<Rightarrow> val \<Rightarrow> exn + val" where
  "py_add (VInt a) (VInt b) = Inr (VInt (a + b))"
| "py_add (VTuple xs) (VTuple ys) = Inr (VTuple (xs @ ys))"
| "py_add (VList xs) (VList ys) = Inr (VList (xs @ ys))"
| "py_add _ _ = Inl TypeError"

fun py_mul :: "val \<Rightarrow> val \<Rightarrow> exn + val" where
  "py_mul (VInt a) (VInt b) = Inr (VInt (a * b))"
| "py_mul (VTuple xs) (VInt n) = Inr (VTuple (concat (replicate (nat n) xs)))"
| "py_mul (VInt n) (VTuple xs) = Inr (VTuple (concat (replicate (nat n) xs)))"
| "py_mul (VList xs) (VInt n) = Inr (VList (concat (replicate (nat n) xs)))"
| "py_mul (VInt n) (VList xs) = Inr (VList (concat (replicate (nat n) xs)))"
| "py_mul _ _ = Inl TypeError"

section \<open>Function objects and the program state\<close>

text \<open>
  A call passes positional arguments (\<^verbatim>\<open>*args\<close>) and keyword arguments (\<^verbatim>\<open>**kwargs\<close>, in
  call order; the names of one call are distinct). The key that \<^verbatim>\<open>memo\<close> builds is
  \<^verbatim>\<open>(args, tuple(sorted(kwargs.items())))\<close>.
\<close>

type_synonym kwargs = "(string \<times> val) list"
type_synonym key = "val list \<times> kwargs"
type_synonym addr = nat

text \<open>
  Everything the decorators mutate lives in the state, indexed by the identity of the
  function object that owns it: the attribute dictionary \<^verbatim>\<open>__dict__\<close> of a function
  (where \<^verbatim>\<open>wrapper.calls\<close> is kept), the closure cell \<^verbatim>\<open>cache\<close> of a \<^verbatim>\<open>memo\<close> wrapper
  and the closure cell \<^verbatim>\<open>level\<close> of a \<^verbatim>\<open>trace\<close> wrapper. \<open>stdout\<close> collects the lines
  that \<^verbatim>\<open>print\<close> writes. \<open>user\<close> is whatever else a target reads and writes.
\<close>

record 'u state =
  next_id :: addr
  attrs :: "addr \<Rightarrow> (string \<rightharpoonup> val)"
  cache :: "addr \<Rightarrow> (key \<rightharpoonup> val)"
  level :: "addr \<Rightarrow> int"
  stdout :: "string list"
  user :: 'u

type_synonym 'u callable = "val list \<Rightarrow> kwargs \<Rightarrow> 'u state \<Rightarrow> (exn + val) \<times> 'u state"

text \<open>
  A function object: its identity, \<^verbatim>\<open>__name__\<close>, \<^verbatim>\<open>__doc__\<close> and what calling it does.
\<close>

record 'u func =
  ident :: addr
  name :: string
  doc :: "string option"
  call :: "'u callable"

text \<open>A \<^verbatim>\<open>def\<close> statement: a new function object with an empty \<^verbatim>\<open>__dict__\<close>.\<close>

definition def_function ::
  "string \<Rightarrow> string option \<Rightarrow> 'u callable \<Rightarrow> 'u state \<Rightarrow> 'u func \<times> 'u state" where
  "def_function nm dc body s =
     (\<lparr>ident = next_id s, name = nm, doc = dc, call = body\<rparr>,
      s\<lparr>next_id := Suc (next_id s), attrs := (attrs s)(next_id s := Map.empty)\<rparr>)"

text \<open>
  \<^verbatim>\<open>@functools.wraps(func) def wrapper ...\<close>: the new function object takes
  \<^verbatim>\<open>__name__\<close> and \<^verbatim>\<open>__doc__\<close> of \<open>func\<close>, and its fresh \<^verbatim>\<open>__dict__\<close> is updated with
  the entries that \<open>func.__dict__\<close> holds at that moment (a copy, not an alias). The
  standard library also sets \<^verbatim>\<open>__wrapped__\<close>, \<^verbatim>\<open>__module__\<close> and \<^verbatim>\<open>__qualname__\<close>, which
  nothing in the program reads.
\<close>

definition wraps :: "'u func \<Rightarrow> 'u callable \<Rightarrow> 'u state \<Rightarrow> 'u func \<times> 'u state" where
  "wraps func body s =
     (\<lparr>ident = next_id s, name = name func, doc = doc func, call = body\<rparr>,
      s\<lparr>next_id := Suc (next_id s),
        attrs := (attrs s)(next_id s := attrs s (ident func))\<rparr>)"

section \<open>The decorators\<close>

subsection \<open>\<^verbatim>\<open>disable\<close> and \<^verbatim>\<open>decorator\<close>\<close>

definition disable_wrapper :: "'u func \<Rightarrow> 'u callable" where
  "disable_wrapper func args kwargs s = call func args kwargs s"

definition disable :: "'u func \<Rightarrow> 'u state \<Rightarrow> 'u func \<times> 'u state" where
  "disable func s = wraps func (disable_wrapper func) s"

definition decorator_wrapper :: "'u func \<Rightarrow> 'u callable" where
  "decorator_wrapper func args kwargs s = call func args kwargs s"

definition decorator :: "'u func \<Rightarrow> 'u state \<Rightarrow> 'u func \<times> 'u state" where
  "decorator func s = wraps func (decorator_wrapper func) s"

subsection \<open>\<^verbatim>\<open>countcalls\<close>\<close>

text \<open>
  \<^verbatim>\<open>wrapper.calls += 1; return func(*args, **kwargs)\<close>, where \<^verbatim>\<open>wrapper\<close> is the
  wrapper's own function object \<open>self\<close>. Reading a missing attribute raises
  \<^verbatim>\<open>AttributeError\<close>; adding 1 to a value that is not a number raises \<^verbatim>\<open>TypeError\<close>.
\<close>

definition countcalls_wrapper :: "addr \<Rightarrow> 'u func \<Rightarrow> 'u callable" where
  "countcalls_wrapper self func args kwargs s =
     (case attrs s self ''calls'' of
        None \<Rightarrow> (Inl AttributeError, s)
      | Some (VInt c) \<Rightarrow>
          call func args kwargs
            (s\<lparr>attrs := (attrs s)(self := (attrs s self)(''calls'' \<mapsto> VInt (c + 1)))\<rparr>)
      | Some _ \<Rightarrow> (Inl TypeError, s))"

text \<open>The decorator: build the wrapper, then \<^verbatim>\<open>wrapper.calls = 0\<close>.\<close>

definition countcalls :: "'u func \<Rightarrow> 'u state \<Rightarrow> 'u func \<times> 'u state" where
  "countcalls func s =
     (let (wrapper, s1) = wraps func (countcalls_wrapper (next_id s) func) s
      in (wrapper,
          s1\<lparr>attrs := (attrs s1)(ident wrapper := (attrs s1 (ident wrapper))(''calls'' \<mapsto> VInt 0))\<rparr>))"

subsection \<open>\<^verbatim>\<open>memo\<close>\<close>

definition all_args_of :: "val list \<Rightarrow> kwargs \<Rightarrow> key" where
  "all_args_of args kwargs = (args, sort_key fst kwargs)"

definition hashable_key :: "key \<Rightarrow> bool" where
  "hashable_key k = (hashable_list (fst k) \<and> hashable_list (map snd (snd k)))"

text \<open>
  \<^verbatim>\<open>if all_args not in cache: cache[all_args] = func(*args, **kwargs)\<close> and then
  \<^verbatim>\<open>return cache[all_args]\<close>. The membership test hashes the key and raises
  \<^verbatim>\<open>TypeError\<close> when a value in it is unhashable. When \<open>func\<close> raises, the assignment
  does not happen.
\<close>

definition memo_wrapper :: "addr \<Rightarrow> 'u func \<Rightarrow> 'u callable" where
  "memo_wrapper self func args kwargs s =
     (let all_args = all_args_of args kwargs in
      if \<not> hashable_key all_args then (Inl TypeError, s)
      else
        (case cache s self all_args of
           Some v \<Rightarrow> (Inr v, s)
         | None \<Rightarrow>
             (case call func args kwargs s of
                (Inl e, s1) \<Rightarrow> (Inl e, s1)
              | (Inr v, s1) \<Rightarrow>
                  (Inr v, s1\<lparr>cache := (cache s1)(self := (cache s1 self)(all_args \<mapsto> v))\<rparr>))))"

text \<open>The decorator: \<^verbatim>\<open>cache = {}\<close>, then build the wrapper.\<close>

definition memo :: "'u func \<Rightarrow> 'u state \<Rightarrow> 'u func \<times> 'u state" where
  "memo func s =
     (let (wrapper, s1) = wraps func (memo_wrapper (next_id s) func) s
      in (wrapper, s1\<lparr>cache := (cache s1)(ident wrapper := Map.empty)\<rparr>))"

subsection \<open>\<^verbatim>\<open>n_ary\<close>\<close>

text \<open>
  \<^verbatim>\<open>for i in reversed(args): result = i if result is None else func(i, result)\<close>.
  The list is the part of \<^verbatim>\<open>reversed(args)\<close> still to be visited.
\<close>

fun n_ary_loop :: "'u func \<Rightarrow> val list \<Rightarrow> val \<Rightarrow> 'u state \<Rightarrow> (exn + val) \<times> 'u state" where
  "n_ary_loop func [] result s = (Inr result, s)"
| "n_ary_loop func (i # rest) result s =
     (if result = VNone then n_ary_loop func rest i s
      else
        (case call func [i, result] [] s of
           (Inl e, s1) \<Rightarrow> (Inl e, s1)
         | (Inr r, s1) \<Rightarrow> n_ary_loop func rest r s1))"

text \<open>
  \<^verbatim>\<open>def wrapper(*args)\<close> takes no keyword arguments, so passing one is a \<^verbatim>\<open>TypeError\<close>.
\<close>

definition n_ary_wrapper :: "'u func \<Rightarrow> 'u callable" where
  "n_ary_wrapper func args kwargs s =
     (if kwargs \<noteq> [] then (Inl TypeError, s) else n_ary_loop func (rev args) VNone s)"

text \<open>
  \<^verbatim>\<open>n_ary\<close> does not use \<^verbatim>\<open>functools.wraps\<close>: its wrapper is a plain \<^verbatim>\<open>def wrapper\<close>
  without a docstring.
\<close>

definition n_ary :: "'u func \<Rightarrow> 'u state \<Rightarrow> 'u func \<times> 'u state" where
  "n_ary func s = def_function ''wrapper'' None (n_ary_wrapper func) s"

subsection \<open>\<^verbatim>\<open>trace\<close>\<close>

text \<open>\<^verbatim>\<open>delimiter * level\<close>: a string repeated; no repeats for a count below 1.\<close>

definition str_times :: "string \<Rightarrow> int \<Rightarrow> string" where
  "str_times d n = concat (replicate (nat n) d)"

definition entry_line :: "string \<Rightarrow> int \<Rightarrow> string \<Rightarrow> val list \<Rightarrow> string" where
  "entry_line delimiter lvl nm args =
     str_times delimiter lvl @ '' --> '' @ nm @ py_repr (VTuple args)"

definition exit_line :: "string \<Rightarrow> int \<Rightarrow> string \<Rightarrow> val list \<Rightarrow> val \<Rightarrow> string" where
  "exit_line delimiter lvl nm args result =
     str_times delimiter lvl @ '' <-- '' @ nm @ py_repr (VTuple args) @ '' == '' @ py_repr result"

definition print :: "string \<Rightarrow> 'u state \<Rightarrow> 'u state" where
  "print line s = s\<lparr>stdout := stdout s @ [line]\<rparr>"

definition set_level :: "addr \<Rightarrow> int \<Rightarrow> 'u state \<Rightarrow> 'u state" where
  "set_level self l s = s\<lparr>level := (level s)(self := l)\<rparr>"

text \<open>
  The wrapper of \<^verbatim>\<open>trace_with_param\<close>: print the entry line, \<^verbatim>\<open>level += 1\<close>, call,
  \<^verbatim>\<open>level -= 1\<close>, print the exit line. There is no \<^verbatim>\<open>try\<close>: when \<open>func\<close> raises, the last
  two steps are skipped. Only \<^verbatim>\<open>args\<close> is rendered, not \<^verbatim>\<open>kwargs\<close>.
\<close>

definition trace_wrapper :: "addr \<Rightarrow> string \<Rightarrow> 'u func \<Rightarrow> 'u callable" where
  "trace_wrapper self delimiter func args kwargs s =
     (let s1 = print (entry_line delimiter (level s self) (name func) args) s;
          s2 = set_level self (level s1 self + 1) s1
      in case call func args kwargs s2 of
           (Inl e, s3) \<Rightarrow> (Inl e, s3)
         | (Inr result, s3) \<Rightarrow>
             (let s4 = set_level self (level s3 self - 1) s3
              in (Inr result,
                  print (exit_line delimiter (level s4 self) (name func) args result) s4)))"

text \<open>\<^verbatim>\<open>trace(delim)(func)\<close>: \<^verbatim>\<open>level = 0; delimiter = delim\<close>, then build the wrapper.\<close>

definition trace :: "string \<Rightarrow> 'u func \<Rightarrow> 'u state \<Rightarrow> 'u func \<times> 'u state" where
  "trace delim func s =
     (let (wrapper, s1) = wraps func (trace_wrapper (next_id s) delim func) s
      in (wrapper, set_level (ident wrapper) 0 s1))"

section \<open>The decorated functions of the module\<close>

text \<open>
  Binding the arguments of a call to the parameters of a plain \<^verbatim>\<open>def f(p1, ..., pn)\<close>:
  positional arguments fill the first parameters, keyword arguments the remaining ones by
  name; anything else (too many or too few arguments, an unknown or repeated name) is a
  \<^verbatim>\<open>TypeError\<close>, here \<open>None\<close>.
\<close>

definition bind_params :: "string list \<Rightarrow> val list \<Rightarrow> kwargs \<Rightarrow> val list option" where
  "bind_params params args kwargs =
     (let rest = drop (length args) params in
      if length args \<le> length params \<and> distinct (map fst kwargs) \<and> set (map fst kwargs) = set rest
      then Some (args @ map (\<lambda>p. the (map_of kwargs p)) rest)
      else None)"

text \<open>\<^verbatim>\<open>def foo(a, b): return a + b\<close> and \<^verbatim>\<open>def bar(a, b): return a * b\<close>.\<close>

definition foo_raw :: "'u callable" where
  "foo_raw args kwargs s =
     (case bind_params [''a'', ''b''] args kwargs of
        Some [a, b] \<Rightarrow> (py_add a b, s)
      | _ \<Rightarrow> (Inl TypeError, s))"

definition bar_raw :: "'u callable" where
  "bar_raw args kwargs s =
     (case bind_params [''a'', ''b''] args kwargs of
        Some [a, b] \<Rightarrow> (py_mul a b, s)
      | _ \<Rightarrow> (Inl TypeError, s))"

text \<open>\<^verbatim>\<open>@memo @countcalls @n_ary def foo\<close>: the decorator nearest to the \<^verbatim>\<open>def\<close> is applied first.\<close>

definition foo :: "'u state \<Rightarrow> 'u func \<times> 'u state" where
  "foo s0 =
     (let (f, s1) = def_function ''foo'' None foo_raw s0;
          (n, s2) = n_ary f s1;
          (c, s3) = countcalls n s2
      in memo c s3)"

text \<open>\<^verbatim>\<open>@countcalls @memo @n_ary def bar\<close>.\<close>

definition bar :: "'u state \<Rightarrow> 'u func \<times> 'u state" where
  "bar s0 =
     (let (f, s1) = def_function ''bar'' None bar_raw s0;
          (n, s2) = n_ary f s1;
          (m, s3) = memo n s2
      in countcalls m s3)"

text \<open>
  \<^verbatim>\<open>def fib(n): return 1 if n <= 1 else fib(n-1) + fib(n-2)\<close>. The name \<^verbatim>\<open>fib\<close> in the body
  is looked up in the module when the body runs, so the recursive calls go to whatever the
  module binds to \<^verbatim>\<open>fib\<close>: the parameter \<open>global_fib\<close>. Comparing a value that is not a
  number with 1 raises \<^verbatim>\<open>TypeError\<close>.
\<close>

definition fib_raw :: "'u callable \<Rightarrow> 'u callable" where
  "fib_raw global_fib args kwargs s =
     (case bind_params [''n''] args kwargs of
        Some [VInt n] \<Rightarrow>
          (if n \<le> 1 then (Inr (VInt 1), s)
           else
             (case global_fib [VInt (n - 1)] [] s of
                (Inl e, s1) \<Rightarrow> (Inl e, s1)
              | (Inr x, s1) \<Rightarrow>
                  (case global_fib [VInt (n - 2)] [] s1 of
                     (Inl e, s2) \<Rightarrow> (Inl e, s2)
                   | (Inr y, s2) \<Rightarrow> (py_add x y, s2))))
      | _ \<Rightarrow> (Inl TypeError, s))"

text \<open>
  \<^verbatim>\<open>@countcalls @trace("####") @memo def fib\<close>, with the delimiter as a parameter and the
  binding of the module's name \<^verbatim>\<open>fib\<close> as a parameter.
\<close>

definition fib_def :: "string \<Rightarrow> 'u callable \<Rightarrow> 'u state \<Rightarrow> 'u func \<times> 'u state" where
  "fib_def delim global_fib s0 =
     (let (f, s1) = def_function ''fib'' (Some ''Some doc'') (fib_raw global_fib) s0;
          (m, s2) = memo f s1;
          (t, s3) = trace delim m s2
      in countcalls t s3)"

text \<open>
  The module binds \<^verbatim>\<open>fib\<close> to the outermost wrapper, so the body calls that wrapper. The
  recursion is cut by a bound on the depth of nested calls of \<^verbatim>\<open>fib\<close>, as Python's call
  stack does: with the bound used up, a call raises \<^verbatim>\<open>RecursionError\<close>.
\<close>

primrec fib :: "string \<Rightarrow> nat \<Rightarrow> 'u state \<Rightarrow> 'u func" where
  "fib delim 0 s0 = fst (fib_def delim (\<lambda>args kwargs s. (Inl RecursionError, s)) s0)"
| "fib delim (Suc depth) s0 = fst (fib_def delim (call (fib delim depth s0)) s0)"

text \<open>The state of the module after the definition of \<^verbatim>\<open>fib\<close>; it does not depend on the body.\<close>

definition fib_module :: "string \<Rightarrow> 'u state \<Rightarrow> 'u state" where
  "fib_module delim s0 = snd (fib_def delim (\<lambda>args kwargs s. (Inl RecursionError, s)) s0)"

text \<open>
  A caller that makes one call after the other and goes on after an exception, keeping
  the outcomes.
\<close>

fun invoke_all ::
  "'u func \<Rightarrow> (val list \<times> kwargs) list \<Rightarrow> 'u state \<Rightarrow> (exn + val) list \<times> 'u state" where
  "invoke_all w [] s = ([], s)"
| "invoke_all w ((args, kwargs) # rest) s =
     (case call w args kwargs s of
        (r, s1) \<Rightarrow> (case invoke_all w rest s1 of (rs, s2) \<Rightarrow> (r # rs, s2)))"

text \<open>An initial state: no function objects yet, nothing printed.\<close>

definition init :: "'u \<Rightarrow> 'u state" where
  "init u = \<lparr>next_id = 0, attrs = (\<lambda>a. Map.empty), cache = (\<lambda>a. Map.empty),
             level = (\<lambda>a. 0), stdout = [], user = u\<rparr>"

section \<open>The right fold of the documentation\<close>

text \<open>
  What the docstring of \<^verbatim>\<open>n_ary\<close> promises, written from its words and not from the
  loop: \<^verbatim>\<open>f(x) = x\<close> and \<^verbatim>\<open>f(x, y, z) = f(x, f(y, z))\<close>, the inner call evaluated first.
  No operands is outside the promise; the value \<^verbatim>\<open>None\<close> is chosen for it.
\<close>

fun right_fold :: "'u func \<Rightarrow> val list \<Rightarrow> 'u state \<Rightarrow> (exn + val) \<times> 'u state" where
  "right_fold func [] s = (Inr VNone, s)"
| "right_fold func [a] s = (Inr a, s)"
| "right_fold func (a # b # rest) s =
     (case right_fold func (b # rest) s of
        (Inl e, s1) \<Rightarrow> (Inl e, s1)
      | (Inr acc, s1) \<Rightarrow> call func [a, acc] [] s1)"

section \<open>Targets used as examples\<close>

text \<open>
  A target that counts its own invocations in the first component of \<open>user\<close> and
  otherwise behaves as \<open>f\<close> on the second component; it touches nothing else.
\<close>

definition instrumented ::
  "(val list \<Rightarrow> kwargs \<Rightarrow> 'u \<Rightarrow> (exn + val) \<times> 'u) \<Rightarrow> (nat \<times> 'u) callable" where
  "instrumented f args kwargs s =
     (case f args kwargs (snd (user s)) of
        (r, u) \<Rightarrow> (r, s\<lparr>user := (Suc (fst (user s)), u)\<rparr>))"

text \<open>
  \<^verbatim>\<open>def flaky(*args, **kwargs): global n; n += 1; if n == 1: raise ValueError("boom"); return n\<close>:
  it raises on its first invocation and returns the number of invocations afterwards.
\<close>

definition flaky_raw :: "nat callable" where
  "flaky_raw args kwargs s =
     (let s1 = s\<lparr>user := user s + 1\<rparr>
      in if user s1 = 1 then (Inl (Failure ''boom''), s1)
         else (Inr (VInt (int (user s1))), s1))"

text \<open>\<^verbatim>\<open>def quiet(a, b): return None\<close>, a binary function called for its effect.\<close>

definition quiet_raw :: "'u callable" where
  "quiet_raw args kwargs s =
     (case bind_params [''a'', ''b''] args kwargs of
        Some [a, b] \<Rightarrow> (Inr VNone, s)
      | _ \<Rightarrow> (Inl TypeError, s))"

text \<open>
  A recursive function that survives the failure of a nested call:
  \<^verbatim>\<open>
  @trace("#")
  def t(n):
      if n == 0: raise ValueError("boom")
      try: t(0)
      except ValueError: pass
      return 1
  \<close>
  As for \<^verbatim>\<open>fib\<close>, the name \<^verbatim>\<open>t\<close> in the body is the module's binding, a parameter.
\<close>

definition catcher_raw :: "'u callable \<Rightarrow> 'u callable" where
  "catcher_raw global_t args kwargs s =
     (case bind_params [''n''] args kwargs of
        Some [n] \<Rightarrow>
          (if n = VInt 0 then (Inl (Failure ''boom''), s)
           else
             (case global_t [VInt 0] [] s of
                (Inl (Failure m), s1) \<Rightarrow> (Inr (VInt 1), s1)
              | (Inl e, s1) \<Rightarrow> (Inl e, s1)
              | (Inr r, s1) \<Rightarrow> (Inr (VInt 1), s1)))
      | _ \<Rightarrow> (Inl TypeError, s))"

definition catcher_def :: "'u callable \<Rightarrow> 'u state \<Rightarrow> 'u func \<times> 'u state" where
  "catcher_def global_t s0 =
     (let (f, s1) = def_function ''t'' None (catcher_raw global_t) s0
      in trace ''#'' f s1)"

primrec catcher :: "nat \<Rightarrow> 'u state \<Rightarrow> 'u func" where
  "catcher 0 s0 = fst (catcher_def (\<lambda>args kwargs s. (Inl RecursionError, s)) s0)"
| "catcher (Suc depth) s0 = fst (catcher_def (call (catcher depth s0)) s0)"

section \<open>Auxiliary facts\<close>

lemma snd_invoke_all_Cons:
  "snd (invoke_all w ((args, kwargs) # rest) s) =
     snd (invoke_all w rest (snd (call w args kwargs s)))"
  by (simp add: case_prod_unfold)

lemma countcalls_invoke_all:
  assumes frame: "\<And>args kwargs s. attrs (snd (call func args kwargs s)) w = attrs s w"
      and W: "call W = countcalls_wrapper w func"
      and c: "attrs s w ''calls'' = Some (VInt c)"
  shows "attrs (snd (invoke_all W calls s)) w ''calls'' = Some (VInt (c + int (length calls)))"
  using c
proof (induction calls arbitrary: s c)
  case Nil
  then show ?case by simp
next
  case (Cons x calls)
  obtain args kwargs where x: "x = (args, kwargs)" by (cases x)
  let ?s' = "snd (call W args kwargs s)"
  have "attrs ?s' w ''calls'' = Some (VInt (c + 1))"
    using Cons.prems frame by (simp add: W countcalls_wrapper_def)
  from Cons.IH[OF this] show ?case
    unfolding x snd_invoke_all_Cons by (simp add: add.assoc)
qed

lemma n_ary_loop_append:
  "n_ary_loop func (ys @ zs) acc s =
     (case n_ary_loop func ys acc s of
        (Inl e, s1) \<Rightarrow> (Inl e, s1)
      | (Inr r, s1) \<Rightarrow> n_ary_loop func zs r s1)"
  by (induction ys arbitrary: acc s) (auto split: prod.splits sum.splits)

lemma right_fold_not_None:
  assumes nn: "\<And>a b s. fst (call func [a, b] [] s) \<noteq> Inr VNone"
      and ops: "VNone \<notin> set args" and ne: "args \<noteq> []"
  shows "fst (right_fold func args s) \<noteq> Inr VNone"
proof (cases args)
  case Nil
  with ne show ?thesis by simp
next
  case (Cons a rest)
  show ?thesis
  proof (cases rest)
    case Nil
    with Cons ops show ?thesis by auto
  next
    case (Cons b rest')
    with \<open>args = a # rest\<close> nn show ?thesis
      by (auto split: prod.splits sum.splits)
  qed
qed

text \<open>
  On operands that are not \<^verbatim>\<open>None\<close>, and with a binary function that never returns
  \<^verbatim>\<open>None\<close>, the loop of \<^verbatim>\<open>n_ary\<close> computes the right fold of its docstring, effects and
  errors included.
\<close>

lemma n_ary_is_right_fold:
  assumes nn: "\<And>a b s. fst (call func [a, b] [] s) \<noteq> Inr VNone"
      and ops: "VNone \<notin> set args"
  shows "n_ary_wrapper func args [] s = right_fold func args s"
  using ops
proof (induction args)
  case Nil
  show ?case by (simp add: n_ary_wrapper_def)
next
  case (Cons a rest)
  then have IH: "n_ary_loop func (rev rest) VNone s = right_fold func rest s"
    by (simp add: n_ary_wrapper_def)
  show ?case
  proof (cases rest)
    case Nil
    then show ?thesis by (simp add: n_ary_wrapper_def)
  next
    case (Cons b rest')
    from Cons.prems have "VNone \<notin> set rest" by simp
    with nn Cons have "fst (right_fold func rest s) \<noteq> Inr VNone"
      by (intro right_fold_not_None) auto
    with IH Cons show ?thesis
      by (auto simp add: n_ary_wrapper_def n_ary_loop_append split: prod.splits sum.splits)
  qed
qed

text \<open>
  The five decorators that build their wrapper with \<^verbatim>\<open>functools.wraps\<close> hand on
  \<^verbatim>\<open>__name__\<close> and \<^verbatim>\<open>__doc__\<close> of the function they decorate.
\<close>

lemma wraps_decorators_keep_metadata:
  "name (fst (disable func s)) = name func \<and> doc (fst (disable func s)) = doc func \<and>
   name (fst (decorator func s)) = name func \<and> doc (fst (decorator func s)) = doc func \<and>
   name (fst (countcalls func s)) = name func \<and> doc (fst (countcalls func s)) = doc func \<and>
   name (fst (memo func s)) = name func \<and> doc (fst (memo func s)) = doc func \<and>
   name (fst (trace delim func s)) = name func \<and> doc (fst (trace delim func s)) = doc func"
  by (simp add: disable_def decorator_def countcalls_def memo_def trace_def wraps_def)

text \<open>
  One call of \<^verbatim>\<open>memo(countcalls(T))\<close> for an instrumented target: the attributes of the
  outer wrapper are not touched, and either the inner counter and the target's own count
  both go up by one (a miss) or neither changes (a hit, or an unhashable key).
\<close>

lemma memo_countcalls_step:
  assumes W: "call W = memo_wrapper m C"
      and C: "call C = countcalls_wrapper c T"
      and T: "call T = instrumented f"
      and neq: "c \<noteq> m"
      and cnt: "attrs s c ''calls'' = Some (VInt n)"
  shows "attrs (snd (call W args kwargs s)) m = attrs s m \<and>
         ((attrs (snd (call W args kwargs s)) c ''calls'' = Some (VInt (n + 1)) \<and>
           fst (user (snd (call W args kwargs s))) = Suc (fst (user s))) \<or>
          (attrs (snd (call W args kwargs s)) c ''calls'' = Some (VInt n) \<and>
           fst (user (snd (call W args kwargs s))) = fst (user s)))"
  using neq cnt
  by (auto simp add: W C T memo_wrapper_def countcalls_wrapper_def instrumented_def Let_def
        split: option.splits prod.splits sum.splits)

text \<open>
  The same step for the other wrappers that hand every call on: \<^verbatim>\<open>disable\<close>,
  \<^verbatim>\<open>decorator\<close> and \<^verbatim>\<open>trace\<close> around \<^verbatim>\<open>countcalls(T)\<close>.
\<close>

lemma disable_countcalls_step:
  assumes W: "call W = disable_wrapper C"
      and C: "call C = countcalls_wrapper c T"
      and T: "call T = instrumented f"
      and neq: "c \<noteq> m"
      and cnt: "attrs s c ''calls'' = Some (VInt n)"
  shows "attrs (snd (call W args kwargs s)) m = attrs s m \<and>
         ((attrs (snd (call W args kwargs s)) c ''calls'' = Some (VInt (n + 1)) \<and>
           fst (user (snd (call W args kwargs s))) = Suc (fst (user s))) \<or>
          (attrs (snd (call W args kwargs s)) c ''calls'' = Some (VInt n) \<and>
           fst (user (snd (call W args kwargs s))) = fst (user s)))"
  using neq cnt
  by (auto simp add: W C T disable_wrapper_def countcalls_wrapper_def instrumented_def
        split: prod.splits)

lemma decorator_countcalls_step:
  assumes W: "call W = decorator_wrapper C"
      and C: "call C = countcalls_wrapper c T"
      and T: "call T = instrumented f"
      and neq: "c \<noteq> m"
      and cnt: "attrs s c ''calls'' = Some (VInt n)"
  shows "attrs (snd (call W args kwargs s)) m = attrs s m \<and>
         ((attrs (snd (call W args kwargs s)) c ''calls'' = Some (VInt (n + 1)) \<and>
           fst (user (snd (call W args kwargs s))) = Suc (fst (user s))) \<or>
          (attrs (snd (call W args kwargs s)) c ''calls'' = Some (VInt n) \<and>
           fst (user (snd (call W args kwargs s))) = fst (user s)))"
  using neq cnt
  by (auto simp add: W C T decorator_wrapper_def countcalls_wrapper_def instrumented_def
        split: prod.splits)

lemma trace_countcalls_step:
  assumes W: "call W = trace_wrapper m delim C"
      and C: "call C = countcalls_wrapper c T"
      and T: "call T = instrumented f"
      and neq: "c \<noteq> m"
      and cnt: "attrs s c ''calls'' = Some (VInt n)"
  shows "attrs (snd (call W args kwargs s)) m = attrs s m \<and>
         ((attrs (snd (call W args kwargs s)) c ''calls'' = Some (VInt (n + 1)) \<and>
           fst (user (snd (call W args kwargs s))) = Suc (fst (user s))) \<or>
          (attrs (snd (call W args kwargs s)) c ''calls'' = Some (VInt n) \<and>
           fst (user (snd (call W args kwargs s))) = fst (user s)))"
  using neq cnt
  by (auto simp add: W C T trace_wrapper_def countcalls_wrapper_def instrumented_def
        print_def set_level_def Let_def split: prod.splits sum.splits)

text \<open>
  Any wrapper whose single call makes such a step keeps, over a sequence of calls, the
  outer copy at 0 and the inner counter equal to the target's own count.
\<close>

lemma stale_copy_invoke_all:
  assumes step: "\<And>args kwargs s n. attrs s c ''calls'' = Some (VInt n) \<Longrightarrow>
         attrs (snd (call W args kwargs s)) m = attrs s m \<and>
         ((attrs (snd (call W args kwargs s)) c ''calls'' = Some (VInt (n + 1)) \<and>
           fst (user (snd (call W args kwargs s))) = Suc (fst (user s))) \<or>
          (attrs (snd (call W args kwargs s)) c ''calls'' = Some (VInt n) \<and>
           fst (user (snd (call W args kwargs s))) = fst (user s)))"
      and outer: "attrs s m ''calls'' = Some (VInt 0)"
      and cnt: "attrs s c ''calls'' = Some (VInt (int (fst (user s)) - k))"
  shows "attrs (snd (invoke_all W calls s)) m ''calls'' = Some (VInt 0) \<and>
         attrs (snd (invoke_all W calls s)) c ''calls''
           = Some (VInt (int (fst (user (snd (invoke_all W calls s)))) - k))"
  using outer cnt
proof (induction calls arbitrary: s)
  case Nil
  then show ?case by simp
next
  case (Cons x calls)
  obtain args kwargs where x: "x = (args, kwargs)" by (cases x)
  let ?s' = "snd (call W args kwargs s)"
  from step[OF Cons.prems(2), of args kwargs]
  have "attrs ?s' m ''calls'' = Some (VInt 0)"
   and "attrs ?s' c ''calls'' = Some (VInt (int (fst (user ?s')) - k))"
    using Cons.prems(1) by auto
  from Cons.IH[OF this] show ?case
    unfolding x snd_invoke_all_Cons .
qed

section \<open>The claims\<close>

text \<open>
  C1. The claim: in \<^verbatim>\<open>countcalls(trace("#")(memo(fib)))\<close> a recursive sub-call whose
  arguments are already in the cache prints no trace lines, so that trace lines appear
  only for the first computation of each argument. In this stack the tracer is applied
  after \<^verbatim>\<open>memo\<close>, so it is outside the cache and prints for every call. In \<^verbatim>\<open>fib(3)\<close> the
  sub-call \<^verbatim>\<open>fib(1)\<close> made by \<^verbatim>\<open>fib(3)\<close> itself finds \<^verbatim>\<open>(1,)\<close> cached by \<^verbatim>\<open>fib(2)\<close> and
  still prints lines 8 and 9 below: five calls, five pairs of lines, four distinct
  arguments.
\<close>

theorem fib_cache_hit_prints_counterexample:
  "fst (call (fib ''#'' (Suc (Suc (Suc 0))) (init ())) [VInt 3] [] (fib_module ''#'' (init ())))
     = Inr (VInt 3) \<and>
   stdout (snd (call (fib ''#'' (Suc (Suc (Suc 0))) (init ())) [VInt 3] []
                  (fib_module ''#'' (init ()))))
     = ['' --> fib(3,)'',
        ''# --> fib(2,)'',
        ''## --> fib(1,)'',
        ''## <-- fib(1,) == 1'',
        ''## --> fib(0,)'',
        ''## <-- fib(0,) == 1'',
        ''# <-- fib(2,) == 2'',
        ''# --> fib(1,)'',
        ''# <-- fib(1,) == 1'',
        '' <-- fib(3,) == 3''] \<and>
   attrs (snd (call (fib ''#'' (Suc (Suc (Suc 0))) (init ())) [VInt 3] []
                 (fib_module ''#'' (init ())))) 3 ''calls''
     = Some (VInt 5)"
  by (simp add: fib_def_def fib_module_def def_function_def memo_def wraps_def trace_def
        countcalls_def countcalls_wrapper_def memo_wrapper_def trace_wrapper_def init_def
        Let_def bind_params_def fib_raw_def all_args_of_def hashable_key_def print_def
        set_level_def entry_line_def exit_line_def str_times_def show_int_def show_nat.simps
        eval_nat_numeral)

text \<open>
  C1, amended: in \<^verbatim>\<open>countcalls(trace(d)(memo(fib)))\<close> a call whose arguments are already
  in the cache does not run the body of \<^verbatim>\<open>fib\<close> (no nested call, no nested line, whatever
  the body is), but it is counted and it prints its own entry line and exit line, at the
  depth of the caller, since the tracer is outside the cache. The function objects of the
  stack are \<open>next_id s0\<close> (the \<^verbatim>\<open>def\<close>) and the next three: \<^verbatim>\<open>memo\<close>, \<^verbatim>\<open>trace\<close>,
  \<^verbatim>\<open>countcalls\<close>.
\<close>

theorem fib_cache_hit_still_traced:
  assumes hk: "hashable_key (all_args_of args kwargs)"
      and hit: "cache s (next_id s0 + 1) (all_args_of args kwargs) = Some v"
      and cnt: "attrs s (next_id s0 + 3) ''calls'' = Some (VInt c)"
  shows "call (fib delim depth s0) args kwargs s =
           (Inr v,
            s\<lparr>attrs := (attrs s)(next_id s0 + 3 :=
                          (attrs s (next_id s0 + 3))(''calls'' \<mapsto> VInt (c + 1))),
              stdout := stdout s @
                 [entry_line delim (level s (next_id s0 + 2)) ''fib'' args,
                  exit_line delim (level s (next_id s0 + 2)) ''fib'' args v]\<rparr>)"
proof -
  have body: "call (fst (fib_def delim g s0)) args kwargs s =
           (Inr v,
            s\<lparr>attrs := (attrs s)(next_id s0 + 3 :=
                          (attrs s (next_id s0 + 3))(''calls'' \<mapsto> VInt (c + 1))),
              stdout := stdout s @
                 [entry_line delim (level s (next_id s0 + 2)) ''fib'' args,
                  exit_line delim (level s (next_id s0 + 2)) ''fib'' args v]\<rparr>)" for g
    using hk hit cnt
    by (simp add: fib_def_def def_function_def memo_def wraps_def trace_def countcalls_def
          countcalls_wrapper_def memo_wrapper_def trace_wrapper_def Let_def print_def
          set_level_def eval_nat_numeral)
  show ?thesis by (cases depth) (simp_all add: body)
qed

theorem fib_cache_hit_still_traced_witness:
  "(let s = snd (call (fib ''#'' 0 (init ())) [VInt 1] [] (fib_module ''#'' (init ())));
        (r, s') = call (fib ''#'' 0 (init ())) [VInt 1] [] s
    in cache s 1 ([VInt 1], []) = Some (VInt 1) \<and>
       stdout s = ['' --> fib(1,)'', '' <-- fib(1,) == 1''] \<and>
       r = Inr (VInt 1) \<and>
       stdout s' = ['' --> fib(1,)'', '' <-- fib(1,) == 1'',
                    '' --> fib(1,)'', '' <-- fib(1,) == 1''] \<and>
       attrs s' 3 ''calls'' = Some (VInt 2))"
  using fib_cache_hit_still_traced
    [of "[VInt 1]" "[]"
        "snd (call (fib ''#'' 0 (init ())) [VInt 1] [] (fib_module ''#'' (init ())))"
        "init ()" "VInt 1" 1 "''#''" 0]
  by (simp add: fib_def_def fib_module_def def_function_def memo_def wraps_def trace_def
        countcalls_def countcalls_wrapper_def memo_wrapper_def trace_wrapper_def init_def
        Let_def bind_params_def fib_raw_def all_args_of_def hashable_key_def print_def
        set_level_def entry_line_def exit_line_def str_times_def show_int_def show_nat.simps
        eval_nat_numeral)

text \<open>
  C2. The order of \<^verbatim>\<open>countcalls\<close> and \<^verbatim>\<open>memo\<close> is observable. With \<^verbatim>\<open>add\<close> the addition
  \<^verbatim>\<open>a + b\<close> and the calls \<^verbatim>\<open>(4, 3)\<close>, \<^verbatim>\<open>(4, 3)\<close>, \<^verbatim>\<open>(4, 3, 2)\<close>:
  for \<^verbatim>\<open>w1 = countcalls(memo(n_ary(add)))\<close>, \<^verbatim>\<open>w1.calls\<close> is 3; for
  \<^verbatim>\<open>w2 = memo(countcalls(n_ary(add)))\<close> the counter of the inner \<^verbatim>\<open>countcalls\<close> wrapper
  is 2, the second call being answered from the cache. The results are 7, 7 and 9 in
  both. This holds from any state \<open>s0\<close> of the module.
\<close>

theorem composition_order_counts:
  "(let (f, s1) = def_function ''add'' None foo_raw s0;
        (n, s2) = n_ary f s1;
        (m, s3) = memo n s2;
        (w1, s4) = countcalls m s3;
        (rs, s5) = invoke_all w1
           [([VInt 4, VInt 3], []), ([VInt 4, VInt 3], []), ([VInt 4, VInt 3, VInt 2], [])] s4
    in rs = [Inr (VInt 7), Inr (VInt 7), Inr (VInt 9)] \<and>
       attrs s5 (ident w1) ''calls'' = Some (VInt 3)) \<and>
   (let (f, s1) = def_function ''add'' None foo_raw s0;
        (n, s2) = n_ary f s1;
        (c, s3) = countcalls n s2;
        (w2, s4) = memo c s3;
        (rs, s5) = invoke_all w2
           [([VInt 4, VInt 3], []), ([VInt 4, VInt 3], []), ([VInt 4, VInt 3, VInt 2], [])] s4
    in rs = [Inr (VInt 7), Inr (VInt 7), Inr (VInt 9)] \<and>
       attrs s5 (ident c) ''calls'' = Some (VInt 2))"
  by (simp add: def_function_def n_ary_def memo_def countcalls_def wraps_def
        countcalls_wrapper_def memo_wrapper_def n_ary_wrapper_def foo_raw_def bind_params_def
        all_args_of_def hashable_key_def Let_def)



text \<open>
  C4. The claim: for every binary operation, \<^verbatim>\<open>n_ary(op)\<close> returns a single operand
  unchanged and, on two or more operands, the right fold
  \<^verbatim>\<open>op(a1, op(a2, ... op(a_{n-1}, a_n)))\<close>. The loop tells "no accumulator yet" from
  "an accumulator" by \<^verbatim>\<open>result is None\<close>, so an accumulator that is \<^verbatim>\<open>None\<close> is thrown
  away. With \<^verbatim>\<open>def quiet(a, b): return None\<close>, \<^verbatim>\<open>n_ary(quiet)(1, 2, 3)\<close> calls
  \<^verbatim>\<open>quiet(2, 3)\<close>, gets \<^verbatim>\<open>None\<close>, takes 1 as a new seed and returns 1, where the right
  fold \<^verbatim>\<open>quiet(1, quiet(2, 3))\<close> is \<^verbatim>\<open>None\<close>. With \<^verbatim>\<open>foo\<close>, the addition of the module,
  \<^verbatim>\<open>n_ary(foo)(1, None)\<close> returns 1 without calling \<^verbatim>\<open>foo\<close>, where \<^verbatim>\<open>foo(1, None)\<close> raises
  \<^verbatim>\<open>TypeError\<close>.
\<close>

theorem n_ary_None_restarts_fold:
  "fst (n_ary_wrapper \<lparr>ident = i, name = ''quiet'', doc = None, call = quiet_raw\<rparr>
          [VInt 1, VInt 2, VInt 3] [] s) = Inr (VInt 1) \<and>
   fst (right_fold \<lparr>ident = i, name = ''quiet'', doc = None, call = quiet_raw\<rparr>
          [VInt 1, VInt 2, VInt 3] s) = Inr VNone \<and>
   fst (n_ary_wrapper \<lparr>ident = i, name = ''foo'', doc = None, call = foo_raw\<rparr>
          [VInt 1, VNone] [] s) = Inr (VInt 1) \<and>
   fst (right_fold \<lparr>ident = i, name = ''foo'', doc = None, call = foo_raw\<rparr>
          [VInt 1, VNone] s) = Inl TypeError"
  by (simp add: n_ary_wrapper_def quiet_raw_def foo_raw_def bind_params_def)

text \<open>
  C5. The claim: for every invocation through a tracer that returns normally, with \<open>D\<close> the
  depth before the call, the entry line and the exit line both carry \<open>D\<close> repeats of the
  delimiter and the depth is \<open>D\<close> again afterwards. The wrapper has no \<^verbatim>\<open>try\<close>: a nested
  call through the same tracer that ends with an error leaves the depth one too high, and
  a target that catches that error returns normally with the depth off by one. For the
  traced function \<^verbatim>\<open>t\<close> above, \<^verbatim>\<open>t(1)\<close> at depth 0 prints its entry line with no
  delimiter, the entry line of the failing \<^verbatim>\<open>t(0)\<close> with one, then its own exit line with
  one delimiter, and leaves the depth at 1.
\<close>

theorem trace_depth_leak_counterexample:
  "fst (call (catcher (Suc 0) (init ())) [VInt 1] []
          (snd (catcher_def (\<lambda>args kwargs s. (Inl RecursionError, s)) (init ()))))
     = Inr (VInt 1) \<and>
   level (snd (catcher_def (\<lambda>args kwargs s. (Inl RecursionError, s)) (init ()))) 1 = 0 \<and>
   stdout (snd (call (catcher (Suc 0) (init ())) [VInt 1] []
          (snd (catcher_def (\<lambda>args kwargs s. (Inl RecursionError, s)) (init ())))))
     = ['' --> t(1,)'', ''# --> t(0,)'', ''# <-- t(1,) == 1''] \<and>
   level (snd (call (catcher (Suc 0) (init ())) [VInt 1] []
          (snd (catcher_def (\<lambda>args kwargs s. (Inl RecursionError, s)) (init ()))))) 1 = 1"
  by (simp add: catcher_def_def catcher_raw_def def_function_def trace_def wraps_def
        trace_wrapper_def init_def Let_def bind_params_def print_def set_level_def
        entry_line_def exit_line_def str_times_def show_int_def show_nat.simps)

text \<open>
  C5, amended: for an invocation that returns normally and whose target hands the depth
  back as it received it (\<open>D + 1\<close>: every call nested in it through this tracer returned
  normally, or there was none), the target runs after the entry line
  \<open>D\<close> delimiters, \<^verbatim>\<open>" --> "\<close>, name, arguments; the wrapper then prints the exit line
  \<open>D\<close> delimiters, \<^verbatim>\<open>" <-- "\<close>, name, arguments, \<^verbatim>\<open>" == "\<close>, result; and the depth is \<open>D\<close>
  again. The arguments are rendered as the tuple \<^verbatim>\<open>args\<close>; keyword arguments are not shown.
\<close>

theorem trace_wrapper_lines:
  assumes depth: "level s self = D"
      and ret: "call func args kwargs
                  (set_level self (D + 1)
                     (print (concat (replicate (nat D) delimiter) @ '' --> '' @ name func
                               @ py_repr (VTuple args)) s))
                = (Inr r, s3)"
      and balanced: "level s3 self = D + 1"
  shows "trace_wrapper self delimiter func args kwargs s =
           (Inr r,
            print (concat (replicate (nat D) delimiter) @ '' <-- '' @ name func
                     @ py_repr (VTuple args) @ '' == '' @ py_repr r)
              (set_level self D s3))
         \<and> level (snd (trace_wrapper self delimiter func args kwargs s)) self = D"
  using depth ret balanced
  by (auto simp add: trace_wrapper_def entry_line_def exit_line_def str_times_def print_def
        set_level_def Let_def)

theorem trace_wrapper_lines_witness:
  "trace_wrapper 1 ''#'' \<lparr>ident = 0, name = ''foo'', doc = None, call = foo_raw\<rparr>
       [VInt 4, VInt 3] [] ((init ())\<lparr>level := (\<lambda>a. 0)(1 := 2)\<rparr>)
     = (Inr (VInt 7),
        \<lparr>next_id = 0, attrs = (\<lambda>a. Map.empty), cache = (\<lambda>a. Map.empty),
         level = (\<lambda>a. 0)(1 := 2),
         stdout = [''## --> foo(4, 3)'', ''## <-- foo(4, 3) == 7''], user = ()\<rparr>)"
  using trace_wrapper_lines
    [of "(init ())\<lparr>level := (\<lambda>a. 0)(1 := 2)\<rparr>" 1 2
        "\<lparr>ident = 0, name = ''foo'', doc = None, call = foo_raw\<rparr>"
        "[VInt 4, VInt 3]" "[]" "''#''" "VInt 7"
        "\<lparr>next_id = 0, attrs = (\<lambda>a. Map.empty), cache = (\<lambda>a. Map.empty),
         level = (\<lambda>a. 0)(1 := 3), stdout = [''## --> foo(4, 3)''], user = ()\<rparr>"]
  by (simp add: init_def foo_raw_def bind_params_def print_def set_level_def show_int_def
        show_nat.simps Let_def eval_nat_numeral)

text \<open>
  C6. \<^verbatim>\<open>memo\<close> does not cache a failure. On a call whose key is hashable and not in the
  cache, with a target that raises \<open>e\<close> and leaves the state \<open>s1\<close>: the wrapper raises \<open>e\<close>
  and leaves exactly \<open>s1\<close>, so it has stored nothing; and with the key still absent, the
  next call with an equal key runs the target again and caches what it returns then.
\<close>

theorem memo_error_not_cached:
  assumes hk: "hashable_key (all_args_of args kwargs)"
      and miss: "cache s self (all_args_of args kwargs) = None"
      and raises: "call func args kwargs s = (Inl e, s1)"
  shows "memo_wrapper self func args kwargs s = (Inl e, s1) \<and>
         cache (snd (memo_wrapper self func args kwargs s)) = cache s1 \<and>
         (\<forall>args' kwargs'. all_args_of args' kwargs' = all_args_of args kwargs \<longrightarrow>
              cache s1 self (all_args_of args kwargs) = None \<longrightarrow>
              memo_wrapper self func args' kwargs' s1 =
                (case call func args' kwargs' s1 of
                   (Inl e', t) \<Rightarrow> (Inl e', t)
                 | (Inr r, t) \<Rightarrow>
                     (Inr r, t\<lparr>cache := (cache t)(self := (cache t self)(all_args_of args kwargs \<mapsto> r))\<rparr>)))"
  using hk miss raises
  by (simp add: memo_wrapper_def Let_def)

text \<open>
  The witness: \<^verbatim>\<open>memo(flaky)\<close>. The first call raises and leaves the cache empty; the
  second call with the same arguments runs \<^verbatim>\<open>flaky\<close> again and gets its value; the third
  is served from the cache.
\<close>

theorem memo_error_not_cached_witness:
  "(let (T, s1) = def_function ''flaky'' None flaky_raw (init 0);
        (w, s2) = memo T s1;
        (r1, s3) = call w [VInt 4] [] s2;
        (r2, s4) = call w [VInt 4] [] s3;
        (r3, s5) = call w [VInt 4] [] s4
    in r1 = Inl (Failure ''boom'') \<and> cache s3 (ident w) = Map.empty \<and> user s3 = 1 \<and>
       r2 = Inr (VInt 2) \<and> user s4 = 2 \<and>
       r3 = Inr (VInt 2) \<and> user s5 = 2)"
  using memo_error_not_cached
    [of "[VInt 4]" "[]"
        "snd (memo (fst (def_function ''flaky'' None flaky_raw (init 0)))
                (snd (def_function ''flaky'' None flaky_raw (init 0))))"
        1
        "fst (def_function ''flaky'' None flaky_raw (init 0))"
        "Failure ''boom''"
        "snd (flaky_raw [VInt 4] []
           (snd (memo (fst (def_function ''flaky'' None flaky_raw (init 0)))
                (snd (def_function ''flaky'' None flaky_raw (init 0))))))"]
  by (simp add: def_function_def init_def flaky_raw_def memo_def wraps_def memo_wrapper_def
        all_args_of_def hashable_key_def Let_def)

text \<open>
  C7. A fresh \<^verbatim>\<open>countcalls(T)\<close> wrapper counts calls made, not calls completed: after
  \<open>k\<close> invocations by a caller, with any arguments and whether they returned or raised,
  \<^verbatim>\<open>wrapper.calls\<close> is \<open>k\<close>. The target is any callable that leaves the attributes of the
  wrapper alone (it does not assign \<^verbatim>\<open>wrapper.calls\<close> itself and does not call the
  wrapper); the wrapper is the function object with identity \<open>next_id s0\<close>, and its
  counter starts at 0.
\<close>

theorem countcalls_counts_calls_made:
  assumes frame:
    "\<And>args kwargs s. attrs (snd (call func args kwargs s)) (next_id s0) = attrs s (next_id s0)"
  shows "ident (fst (countcalls func s0)) = next_id s0 \<and>
         attrs (snd (countcalls func s0)) (next_id s0) ''calls'' = Some (VInt 0) \<and>
         attrs (snd (invoke_all (fst (countcalls func s0)) calls (snd (countcalls func s0))))
               (next_id s0) ''calls''
           = Some (VInt (int (length calls)))"
proof -
  have W: "call (fst (countcalls func s0)) = countcalls_wrapper (next_id s0) func"
    by (simp add: countcalls_def wraps_def)
  have c0: "attrs (snd (countcalls func s0)) (next_id s0) ''calls'' = Some (VInt 0)"
    by (simp add: countcalls_def wraps_def)
  from countcalls_invoke_all[OF frame W c0, of calls] c0 show ?thesis
    by (simp add: countcalls_def wraps_def)
qed

text \<open>
  The witness: \<^verbatim>\<open>flaky\<close> raises on its first invocation and returns afterwards; three
  calls, one of them failed, leave the counter at 3.
\<close>

theorem countcalls_counts_calls_made_witness:
  "(let (T, s1) = def_function ''flaky'' None flaky_raw (init 0);
        (w, s2) = countcalls T s1;
        (rs, s3) = invoke_all w [([VInt 1], []), ([], []), ([VInt 1], [])] s2
    in rs = [Inl (Failure ''boom''), Inr (VInt 2), Inr (VInt 3)] \<and>
       attrs s3 (ident w) ''calls'' = Some (VInt 3))"
  using countcalls_counts_calls_made
    [of "fst (def_function ''flaky'' None flaky_raw (init 0))"
        "snd (def_function ''flaky'' None flaky_raw (init 0))"
        "[([VInt 1], []), ([], []), ([VInt 1], [])]"]
  by (simp add: def_function_def init_def flaky_raw_def countcalls_def wraps_def
        countcalls_wrapper_def Let_def)

text \<open>
  C8. When the target raises inside a traced call, the entry line has been printed and the
  depth incremented before the target ran (the state handed to the target), the error
  reaches the caller unchanged, and the state is left as the target left it: no exit line
  is printed and the depth is not decremented.
\<close>

theorem trace_wrapper_target_raises:
  assumes depth: "level s self = D"
      and raises: "call func args kwargs
                  (set_level self (D + 1)
                     (print (concat (replicate (nat D) delimiter) @ '' --> '' @ name func
                               @ py_repr (VTuple args)) s))
                = (Inl e, s3)"
  shows "trace_wrapper self delimiter func args kwargs s = (Inl e, s3)"
  using depth raises
  by (auto simp add: trace_wrapper_def entry_line_def exit_line_def str_times_def print_def
        set_level_def Let_def)

theorem trace_wrapper_target_raises_witness:
  "trace_wrapper 1 ''#'' \<lparr>ident = 0, name = ''flaky'', doc = None, call = flaky_raw\<rparr>
       [VInt 7] [] (init 0)
     = (Inl (Failure ''boom''),
        \<lparr>next_id = 0, attrs = (\<lambda>a. Map.empty), cache = (\<lambda>a. Map.empty),
         level = (\<lambda>a. 0)(1 := 1), stdout = ['' --> flaky(7,)''], user = 1\<rparr>)"
  using trace_wrapper_target_raises
    [of "init 0" 1 0 "\<lparr>ident = 0, name = ''flaky'', doc = None, call = flaky_raw\<rparr>"
        "[VInt 7]" "[]" "''#''" "Failure ''boom''"
        "\<lparr>next_id = 0, attrs = (\<lambda>a. Map.empty), cache = (\<lambda>a. Map.empty),
         level = (\<lambda>a. 0)(1 := 1), stdout = ['' --> flaky(7,)''], user = 1\<rparr>"]
  by (simp add: init_def flaky_raw_def print_def set_level_def show_int_def show_nat.simps Let_def)

text \<open>
  C9. The claim: the wrapper of every combinator, \<^verbatim>\<open>n_ary\<close> among them, shows the
  name and the docstring of its target. \<^verbatim>\<open>n_ary\<close> is the one decorator of the module
  that builds its wrapper without \<^verbatim>\<open>functools.wraps\<close>: whatever it decorates, the result
  is called \<^verbatim>\<open>wrapper\<close> and has no docstring, and the decorators above it hand that
  on, so the module's \<^verbatim>\<open>foo\<close> and \<^verbatim>\<open>bar\<close> are called \<^verbatim>\<open>wrapper\<close> too.
\<close>

theorem n_ary_drops_metadata:
  "name (fst (n_ary func s)) = ''wrapper'' \<and> doc (fst (n_ary func s)) = None \<and>
   name (fst (foo s0)) = ''wrapper'' \<and> name (fst (bar s0)) = ''wrapper''"
  by (simp add: n_ary_def def_function_def foo_def bar_def countcalls_def memo_def wraps_def)

text \<open>
  C10. The claim: when a \<^verbatim>\<open>countcalls\<close> wrapper is wrapped by a further combinator
  that forwards metadata, the outer \<^verbatim>\<open>.calls\<close> is a copy of the inner counter taken at
  construction (0) and is never updated, so that it reads 0 after every call sequence.
  \<^verbatim>\<open>countcalls\<close> is itself such a combinator, and it does not leave the copy alone: it
  assigns \<^verbatim>\<open>wrapper.calls = 0\<close> to its own wrapper and increments that on every call.
  For \<^verbatim>\<open>countcalls(countcalls(n_ary(add)))\<close> and the calls \<^verbatim>\<open>(4, 3)\<close>, \<^verbatim>\<open>(4, 3)\<close>,
  \<^verbatim>\<open>(4, 3, 2)\<close> the outer \<^verbatim>\<open>.calls\<close> starts at 0 and reads 3 afterwards, as the inner
  one does.
\<close>

theorem outer_countcalls_counts_counterexample:
  "(let (f, s1) = def_function ''add'' None foo_raw (init ());
        (n, s2) = n_ary f s1;
        (c, s3) = countcalls n s2;
        (w, s4) = countcalls c s3;
        (rs, s5) = invoke_all w
           [([VInt 4, VInt 3], []), ([VInt 4, VInt 3], []), ([VInt 4, VInt 3, VInt 2], [])] s4
    in attrs s4 (ident w) ''calls'' = Some (VInt 0) \<and>
       rs = [Inr (VInt 7), Inr (VInt 7), Inr (VInt 9)] \<and>
       attrs s5 (ident w) ''calls'' = Some (VInt 3) \<and>
       attrs s5 (ident c) ''calls'' = Some (VInt 3))"
  by (simp add: def_function_def n_ary_def countcalls_def wraps_def init_def
        countcalls_wrapper_def n_ary_wrapper_def foo_raw_def bind_params_def Let_def)

text \<open>
  C10, amended: when a \<^verbatim>\<open>countcalls\<close> wrapper is wrapped by one of the other
  combinators that forward metadata (\<^verbatim>\<open>memo\<close> as in the module's \<^verbatim>\<open>foo\<close>,
  \<^verbatim>\<open>trace\<close>, \<^verbatim>\<open>disable\<close>, \<^verbatim>\<open>decorator\<close>), \<^verbatim>\<open>functools.wraps\<close> copies the attribute
  \<^verbatim>\<open>calls\<close>, then 0, into the outer wrapper, and nothing ever updates the copy: after any
  sequence of calls the outer \<^verbatim>\<open>.calls\<close> reads 0, while the inner wrapper's own attribute
  is the number of times the target has been invoked since the definition. The target
  counts its own invocations (first component of \<open>user\<close>) and otherwise behaves as any
  \<open>f\<close>.
\<close>

theorem outer_calls_is_stale_copy:
  "(let (T, s1) = def_function nm dc (instrumented f) s0;
        (c, s2) = countcalls T s1;
        (m, s3) = memo c s2;
        s4 = snd (invoke_all m calls s3)
    in attrs s3 (ident m) ''calls'' = Some (VInt 0) \<and>
       attrs s4 (ident m) ''calls'' = Some (VInt 0) \<and>
       attrs s4 (ident c) ''calls''
         = Some (VInt (int (fst (user s4)) - int (fst (user s0))))) \<and>
   (let (T, s1) = def_function nm dc (instrumented f) s0;
        (c, s2) = countcalls T s1;
        (m, s3) = trace delim c s2;
        s4 = snd (invoke_all m calls s3)
    in attrs s3 (ident m) ''calls'' = Some (VInt 0) \<and>
       attrs s4 (ident m) ''calls'' = Some (VInt 0) \<and>
       attrs s4 (ident c) ''calls''
         = Some (VInt (int (fst (user s4)) - int (fst (user s0))))) \<and>
   (let (T, s1) = def_function nm dc (instrumented f) s0;
        (c, s2) = countcalls T s1;
        (m, s3) = disable c s2;
        s4 = snd (invoke_all m calls s3)
    in attrs s3 (ident m) ''calls'' = Some (VInt 0) \<and>
       attrs s4 (ident m) ''calls'' = Some (VInt 0) \<and>
       attrs s4 (ident c) ''calls''
         = Some (VInt (int (fst (user s4)) - int (fst (user s0))))) \<and>
   (let (T, s1) = def_function nm dc (instrumented f) s0;
        (c, s2) = countcalls T s1;
        (m, s3) = decorator c s2;
        s4 = snd (invoke_all m calls s3)
    in attrs s3 (ident m) ''calls'' = Some (VInt 0) \<and>
       attrs s4 (ident m) ''calls'' = Some (VInt 0) \<and>
       attrs s4 (ident c) ''calls''
         = Some (VInt (int (fst (user s4)) - int (fst (user s0)))))"
proof -
  let ?T = "fst (def_function nm dc (instrumented f) s0)"
  let ?s1 = "snd (def_function nm dc (instrumented f) s0)"
  let ?c = "fst (countcalls ?T ?s1)"
  let ?s2 = "snd (countcalls ?T ?s1)"
  let ?ci = "next_id s0 + 1"
  let ?mi = "next_id s0 + 2"
  have C: "call ?c = countcalls_wrapper ?ci ?T"
    by (simp add: wraps_def countcalls_def def_function_def)
  have T: "call ?T = instrumented f"
    by (simp add: def_function_def)
  have neq: "?ci \<noteq> ?mi" by simp
  have idc: "ident ?c = ?ci"
    by (simp add: wraps_def countcalls_def def_function_def)
  have part: "attrs s3 ?mi ''calls'' = Some (VInt 0) \<and>
       attrs (snd (invoke_all m calls s3)) ?mi ''calls'' = Some (VInt 0) \<and>
       attrs (snd (invoke_all m calls s3)) ?ci ''calls''
         = Some (VInt (int (fst (user (snd (invoke_all m calls s3)))) - int (fst (user s0))))"
    if step: "\<And>args kwargs s n. attrs s ?ci ''calls'' = Some (VInt n) \<Longrightarrow>
         attrs (snd (call m args kwargs s)) ?mi = attrs s ?mi \<and>
         ((attrs (snd (call m args kwargs s)) ?ci ''calls'' = Some (VInt (n + 1)) \<and>
           fst (user (snd (call m args kwargs s))) = Suc (fst (user s))) \<or>
          (attrs (snd (call m args kwargs s)) ?ci ''calls'' = Some (VInt n) \<and>
           fst (user (snd (call m args kwargs s))) = fst (user s)))"
      and outer: "attrs s3 ?mi ''calls'' = Some (VInt 0)"
      and cnt: "attrs s3 ?ci ''calls'' = Some (VInt (int (fst (user s3)) - int (fst (user s0))))"
    for m and s3 :: "(nat \<times> 'a) state"
    using stale_copy_invoke_all[of ?ci m ?mi s3 "int (fst (user s0))" calls, OF step outer cnt] outer
    by simp
  have memo_part: "attrs (snd (memo ?c ?s2)) ?mi ''calls'' = Some (VInt 0) \<and>
       attrs (snd (invoke_all (fst (memo ?c ?s2)) calls (snd (memo ?c ?s2)))) ?mi ''calls'' = Some (VInt 0) \<and>
       attrs (snd (invoke_all (fst (memo ?c ?s2)) calls (snd (memo ?c ?s2)))) ?ci ''calls''
         = Some (VInt (int (fst (user (snd (invoke_all (fst (memo ?c ?s2)) calls (snd (memo ?c ?s2)))))) - int (fst (user s0))))"
  proof (rule part)
    have W: "call (fst (memo ?c ?s2)) = memo_wrapper ?mi ?c"
      by (simp add: memo_def wraps_def countcalls_def def_function_def)
    show "attrs (snd (call (fst (memo ?c ?s2)) args kwargs s)) ?mi = attrs s ?mi \<and>
         ((attrs (snd (call (fst (memo ?c ?s2)) args kwargs s)) ?ci ''calls'' = Some (VInt (n + 1)) \<and>
           fst (user (snd (call (fst (memo ?c ?s2)) args kwargs s))) = Suc (fst (user s))) \<or>
          (attrs (snd (call (fst (memo ?c ?s2)) args kwargs s)) ?ci ''calls'' = Some (VInt n) \<and>
           fst (user (snd (call (fst (memo ?c ?s2)) args kwargs s))) = fst (user s)))"
      if "attrs s ?ci ''calls'' = Some (VInt n)" for args kwargs s n
      by (rule memo_countcalls_step[OF W C T neq that])
  qed (simp_all add: memo_def wraps_def countcalls_def def_function_def)
  have trace_part: "attrs (snd (trace delim ?c ?s2)) ?mi ''calls'' = Some (VInt 0) \<and>
       attrs (snd (invoke_all (fst (trace delim ?c ?s2)) calls (snd (trace delim ?c ?s2)))) ?mi ''calls'' = Some (VInt 0) \<and>
       attrs (snd (invoke_all (fst (trace delim ?c ?s2)) calls (snd (trace delim ?c ?s2)))) ?ci ''calls''
         = Some (VInt (int (fst (user (snd (invoke_all (fst (trace delim ?c ?s2)) calls (snd (trace delim ?c ?s2)))))) - int (fst (user s0))))"
  proof (rule part)
    have W: "call (fst (trace delim ?c ?s2)) = trace_wrapper ?mi delim ?c"
      by (simp add: trace_def wraps_def countcalls_def def_function_def)
    show "attrs (snd (call (fst (trace delim ?c ?s2)) args kwargs s)) ?mi = attrs s ?mi \<and>
         ((attrs (snd (call (fst (trace delim ?c ?s2)) args kwargs s)) ?ci ''calls'' = Some (VInt (n + 1)) \<and>
           fst (user (snd (call (fst (trace delim ?c ?s2)) args kwargs s))) = Suc (fst (user s))) \<or>
          (attrs (snd (call (fst (trace delim ?c ?s2)) args kwargs s)) ?ci ''calls'' = Some (VInt n) \<and>
           fst (user (snd (call (fst (trace delim ?c ?s2)) args kwargs s))) = fst (user s)))"
      if "attrs s ?ci ''calls'' = Some (VInt n)" for args kwargs s n
      by (rule trace_countcalls_step[OF W C T neq that])
  qed (simp_all add: trace_def set_level_def wraps_def countcalls_def def_function_def)
  have disable_part: "attrs (snd (disable ?c ?s2)) ?mi ''calls'' = Some (VInt 0) \<and>
       attrs (snd (invoke_all (fst (disable ?c ?s2)) calls (snd (disable ?c ?s2)))) ?mi ''calls'' = Some (VInt 0) \<and>
       attrs (snd (invoke_all (fst (disable ?c ?s2)) calls (snd (disable ?c ?s2)))) ?ci ''calls''
         = Some (VInt (int (fst (user (snd (invoke_all (fst (disable ?c ?s2)) calls (snd (disable ?c ?s2)))))) - int (fst (user s0))))"
  proof (rule part)
    have W: "call (fst (disable ?c ?s2)) = disable_wrapper ?c"
      by (simp add: disable_def wraps_def countcalls_def def_function_def)
    show "attrs (snd (call (fst (disable ?c ?s2)) args kwargs s)) ?mi = attrs s ?mi \<and>
         ((attrs (snd (call (fst (disable ?c ?s2)) args kwargs s)) ?ci ''calls'' = Some (VInt (n + 1)) \<and>
           fst (user (snd (call (fst (disable ?c ?s2)) args kwargs s))) = Suc (fst (user s))) \<or>
          (attrs (snd (call (fst (disable ?c ?s2)) args kwargs s)) ?ci ''calls'' = Some (VInt n) \<and>
           fst (user (snd (call (fst (disable ?c ?s2)) args kwargs s))) = fst (user s)))"
      if "attrs s ?ci ''calls'' = Some (VInt n)" for args kwargs s n
      by (rule disable_countcalls_step[OF W C T neq that])
  qed (simp_all add: disable_def wraps_def countcalls_def def_function_def)
  have decorator_part: "attrs (snd (decorator ?c ?s2)) ?mi ''calls'' = Some (VInt 0) \<and>
       attrs (snd (invoke_all (fst (decorator ?c ?s2)) calls (snd (decorator ?c ?s2)))) ?mi ''calls'' = Some (VInt 0) \<and>
       attrs (snd (invoke_all (fst (decorator ?c ?s2)) calls (snd (decorator ?c ?s2)))) ?ci ''calls''
         = Some (VInt (int (fst (user (snd (invoke_all (fst (decorator ?c ?s2)) calls (snd (decorator ?c ?s2)))))) - int (fst (user s0))))"
  proof (rule part)
    have W: "call (fst (decorator ?c ?s2)) = decorator_wrapper ?c"
      by (simp add: decorator_def wraps_def countcalls_def def_function_def)
    show "attrs (snd (call (fst (decorator ?c ?s2)) args kwargs s)) ?mi = attrs s ?mi \<and>
         ((attrs (snd (call (fst (decorator ?c ?s2)) args kwargs s)) ?ci ''calls'' = Some (VInt (n + 1)) \<and>
           fst (user (snd (call (fst (decorator ?c ?s2)) args kwargs s))) = Suc (fst (user s))) \<or>
          (attrs (snd (call (fst (decorator ?c ?s2)) args kwargs s)) ?ci ''calls'' = Some (VInt n) \<and>
           fst (user (snd (call (fst (decorator ?c ?s2)) args kwargs s))) = fst (user s)))"
      if "attrs s ?ci ''calls'' = Some (VInt n)" for args kwargs s n
      by (rule decorator_countcalls_step[OF W C T neq that])
  qed (simp_all add: decorator_def wraps_def countcalls_def def_function_def)
  have idm: "ident (fst (memo ?c ?s2)) = ?mi" "ident (fst (trace delim ?c ?s2)) = ?mi"
            "ident (fst (disable ?c ?s2)) = ?mi" "ident (fst (decorator ?c ?s2)) = ?mi"
    by (simp_all add: memo_def trace_def disable_def decorator_def wraps_def countcalls_def
          def_function_def)
  from memo_part trace_part disable_part decorator_part idm idc
  show ?thesis
    by (simp add: case_prod_unfold Let_def)
qed

text \<open>The module's \<^verbatim>\<open>foo\<close> after the three calls of \<^verbatim>\<open>main\<close>: the outer wrapper, which
  is what the name \<^verbatim>\<open>foo\<close> is bound to, reads 0 where the inner counter is 2.\<close>

lemma foo_calls_in_main:
  "(let (w, s) = foo s0;
        (rs, s') = invoke_all w
           [([VInt 4, VInt 3], []), ([VInt 4, VInt 3, VInt 2], []), ([VInt 4, VInt 3], [])] s
    in rs = [Inr (VInt 7), Inr (VInt 9), Inr (VInt 7)] \<and>
       attrs s' (ident w) ''calls'' = Some (VInt 0) \<and>
       attrs s' (ident w - 1) ''calls'' = Some (VInt 2))"
  by (simp add: foo_def def_function_def n_ary_def memo_def countcalls_def wraps_def
        countcalls_wrapper_def memo_wrapper_def n_ary_wrapper_def foo_raw_def bind_params_def
        all_args_of_def hashable_key_def Let_def)

end
